theory Spec2Isabelle
  imports Main
begin

section \<open>Data model of the endpoints load balancer\<close>

text \<open>
  The Go package \<^verbatim>\<open>endpoints\<close> (file \<^verbatim>\<open>endpoints.go\<close>) keeps an ordered list of
  backends and a round-robin cursor behind one lock. Every method that touches the two
  fields holds that lock for its whole body, so each method is modelled as one atomic
  function from the state before the call to the result and the state after it.
\<close>

text \<open>\<^verbatim>\<open>type Endpoint struct { Host string; Port string; Ports map[string]string }\<close>.
  A Go map that is nil reads like an empty one; both are \<open>Map.empty\<close>.\<close>

record Endpoint =
  Host :: string
  Port :: string
  Ports :: "string \<rightharpoonup> string"

text \<open>The composite literal \<^verbatim>\<open>Endpoint{}\<close>.\<close>

definition zeroEndpoint :: Endpoint where
  "zeroEndpoint = \<lparr>Host = [], Port = [], Ports = Map.empty\<rparr>"

text \<open>The two sentinel errors of the package, and the other error values that its
  functions return.\<close>

record SyncError =
  URL :: string
  Message :: string
  Code :: int

datatype error =
    ErrNoEndpoints
  | ErrMissingServiceName
  | ClientError string
  | RemoteError SyncError
  | DecodeError string

text \<open>A call either returns or stops in a run-time panic (an index out of range, a nil
  pointer dereference).\<close>

datatype 'a exec = Panic | Return (result: 'a)

text \<open>\<^verbatim>\<open>*http.Client\<close> and \<^verbatim>\<open>*log.Logger\<close> are pointers: \<open>None\<close> is nil.
  The handles themselves are opaque here, apart from the two values that
  \<^verbatim>\<open>setDefaults\<close> installs.\<close>

datatype client_handle = DefaultClient | CustomClient nat

datatype logger_handle = StderrLogger | CustomLogger nat

text \<open>\<^verbatim>\<open>time.Duration\<close> is a signed count of nanoseconds.\<close>

type_synonym duration = int

text \<open>The goroutines that \<^verbatim>\<open>StartBackgroundSync\<close> launches.\<close>

datatype goroutine = WatchEndpoints | Reconcile

text \<open>\<^verbatim>\<open>type LoadBalancer struct\<close>. The wait group is its counter; the quit channel
  is whether it has been closed. \<open>currentEndpoint\<close> is a Go \<^verbatim>\<open>int\<close>; the only
  arithmetic on it is the increment in \<^verbatim>\<open>Next\<close>, executed when it is below the length
  of a slice, so it never wraps.\<close>

record LoadBalancer =
  apiAddr :: string
  client :: "client_handle option"
  errorLog :: "logger_handle option"
  namespace :: string
  retryDelay :: duration
  service :: string
  syncInterval :: duration
  quit_closed :: bool
  wg :: nat
  currentEndpoint :: int
  endpoints :: "Endpoint list"

section \<open>The selector\<close>

text \<open>
  \<^verbatim>\<open>
  func (lb *LoadBalancer) Next() (Endpoint, error) {
      lb.mu.Lock()
      defer lb.mu.Unlock()
      if len(lb.endpoints) <= 0 {
          return Endpoint{}, ErrNoEndpoints
      }
      if lb.currentEndpoint >= len(lb.endpoints) {
          lb.currentEndpoint = 0
      }
      endpoint := lb.endpoints[lb.currentEndpoint]
      lb.currentEndpoint++
      return endpoint, nil
  }
  \<close>
  The index expression is checked by the Go run time: an index that is negative or not
  below the length panics.
\<close>

definition Next :: "LoadBalancer \<Rightarrow> ((Endpoint \<times> error option) \<times> LoadBalancer) exec" where
  "Next lb =
     (if int (length (endpoints lb)) \<le> 0 then Return ((zeroEndpoint, Some ErrNoEndpoints), lb)
      else
        let lb1 = (if currentEndpoint lb \<ge> int (length (endpoints lb))
                   then lb\<lparr>currentEndpoint := 0\<rparr> else lb);
            i = currentEndpoint lb1
        in if i < 0 \<or> i \<ge> int (length (endpoints lb1)) then Panic
           else Return ((endpoints lb1 ! nat i, None), lb1\<lparr>currentEndpoint := i + 1\<rparr>))"

text \<open>
  \<^verbatim>\<open>
  func (lb *LoadBalancer) update(endpoints []Endpoint) {
      lb.mu.Lock()
      lb.endpoints = endpoints
      lb.mu.Unlock()
  }
  \<close>
\<close>

definition update :: "LoadBalancer \<Rightarrow> Endpoint list \<Rightarrow> LoadBalancer" where
  "update lb eps = lb\<lparr>endpoints := eps\<rparr>"

text \<open>The test driver of the round-robin property: \<open>n\<close> consecutive calls of
  \<^verbatim>\<open>Next\<close> with nothing in between, collecting what each call returns. A panic in
  any call is the outcome of the whole run.\<close>

fun Next_calls :: "nat \<Rightarrow> LoadBalancer \<Rightarrow> ((Endpoint \<times> error option) list \<times> LoadBalancer) exec" where
  "Next_calls 0 lb = Return ([], lb)"
| "Next_calls (Suc n) lb =
     (case Next lb of
        Panic \<Rightarrow> Panic
      | Return (r, lb1) \<Rightarrow>
          (case Next_calls n lb1 of
             Panic \<Rightarrow> Panic
           | Return (rs, lb2) \<Rightarrow> Return (r # rs, lb2)))"

text \<open>The index that \<^verbatim>\<open>Next\<close> reads on a non-empty list: the cursor, or 0 when the
  cursor is at or past the end.\<close>

definition start_index :: "LoadBalancer \<Rightarrow> nat" where
  "start_index lb =
     (if currentEndpoint lb \<ge> int (length (endpoints lb)) then 0 else nat (currentEndpoint lb))"

section \<open>Configuration and construction\<close>

text \<open>\<^verbatim>\<open>type Config struct\<close>.\<close>

record Config =
  APIAddr :: string
  Client :: "client_handle option"
  ErrorLog :: "logger_handle option"
  Namespace :: string
  RetryDelay :: duration
  Service :: string
  SyncInterval :: duration

text \<open>\<^verbatim>\<open>DefaultAPIAddr\<close> and \<^verbatim>\<open>DefaultNamespace\<close> are exported package variables,
  which a program may assign; they are read when \<^verbatim>\<open>setDefaults\<close> runs.\<close>

record package_vars =
  DefaultAPIAddr :: string
  DefaultNamespace :: string

definition initial_vars :: package_vars where
  "initial_vars = \<lparr>DefaultAPIAddr = ''127.0.0.1:8001'', DefaultNamespace = ''default''\<rparr>"

definition defaultSyncInterval :: duration where
  "defaultSyncInterval = 30 * 1000000000"

definition defaultRetryDelay :: duration where
  "defaultRetryDelay = 5 * 1000000000"

text \<open>
  \<^verbatim>\<open>
  func (c *Config) setDefaults() {
      if c.APIAddr == "" { c.APIAddr = DefaultAPIAddr }
      if c.Client == nil { c.Client = http.DefaultClient }
      if c.ErrorLog == nil { c.ErrorLog = log.New(os.Stderr, "", log.LstdFlags) }
      if c.Namespace == "" { c.Namespace = DefaultNamespace }
      if c.RetryDelay <= 0 { c.RetryDelay = defaultRetryDelay }
      if c.SyncInterval <= 0 { c.SyncInterval = defaultSyncInterval }
  }
  \<close>
  The receiver is a pointer: the function returns the structure that the pointer refers
  to after the call.
\<close>

definition setDefaults :: "package_vars \<Rightarrow> Config \<Rightarrow> Config" where
  "setDefaults g c =
     (let c1 = (if APIAddr c = [] then c\<lparr>APIAddr := DefaultAPIAddr g\<rparr> else c);
          c2 = (if Client c1 = None then c1\<lparr>Client := Some DefaultClient\<rparr> else c1);
          c3 = (if ErrorLog c2 = None then c2\<lparr>ErrorLog := Some StderrLogger\<rparr> else c2);
          c4 = (if Namespace c3 = [] then c3\<lparr>Namespace := DefaultNamespace g\<rparr> else c3);
          c5 = (if RetryDelay c4 \<le> 0 then c4\<lparr>RetryDelay := defaultRetryDelay\<rparr> else c4);
          c6 = (if SyncInterval c5 \<le> 0 then c5\<lparr>SyncInterval := defaultSyncInterval\<rparr> else c5)
      in c6)"

text \<open>
  \<^verbatim>\<open>
  func New(config *Config) *LoadBalancer {
      config.setDefaults()
      return &LoadBalancer{
          apiAddr: config.APIAddr, client: config.Client, errorLog: config.ErrorLog,
          namespace: config.Namespace, retryDelay: config.RetryDelay,
          service: config.Service, syncInterval: config.SyncInterval,
          quit: make(chan struct{}),
      }
  }
  \<close>
  The first component of the result is the caller's \<^verbatim>\<open>Config\<close> after the call, the
  second the new load balancer; the fields that the literal leaves out hold their zero
  values.
\<close>

definition New :: "package_vars \<Rightarrow> Config \<Rightarrow> Config \<times> LoadBalancer" where
  "New g config =
     (let config' = setDefaults g config
      in (config',
          \<lparr>apiAddr = APIAddr config',
           client = Client config',
           errorLog = ErrorLog config',
           namespace = Namespace config',
           retryDelay = RetryDelay config',
           service = Service config',
           syncInterval = SyncInterval config',
           quit_closed = False,
           wg = 0,
           currentEndpoint = 0,
           endpoints = []\<rparr>))"

section \<open>The registry object and its transformation\<close>

text \<open>Modelled from the spec: the types \<^verbatim>\<open>endpoints\<close>, \<^verbatim>\<open>subset\<close>,
  \<^verbatim>\<open>address\<close> and \<^verbatim>\<open>port\<close> that \<^verbatim>\<open>formatEndpoints\<close> reads are declared in a
  file that is not among the sources. The registry object is
  \<^verbatim>\<open>{subsets: [{addresses: [{ip}], ports: [{name?, port}]}]}\<close>; the field names are
  those that \<^verbatim>\<open>formatEndpoints\<close> selects. A port without a name has the empty name.
  The port number is an integer that \<^verbatim>\<open>formatEndpoints\<close> widens to \<^verbatim>\<open>int64\<close>; it
  is modelled by its value.\<close>

record address =
  address_IP :: string

record port =
  port_Name :: string
  port_Port :: int

record subset =
  subset_Addresses :: "address list"
  subset_Ports :: "port list"

record endpoints_object =
  Subsets :: "subset list"

text \<open>\<^verbatim>\<open>strconv.FormatInt(i, 10)\<close> of the Go library: the decimal digits of the value,
  after a minus sign when it is negative.\<close>

definition digit :: "nat \<Rightarrow> char" where
  "digit d = ''0123456789'' ! d"

fun FormatUint :: "nat \<Rightarrow> string" where
  "FormatUint n = (if n < 10 then [digit n] else FormatUint (n div 10) @ [digit (n mod 10)])"

declare FormatUint.simps [simp del]

definition FormatInt :: "int \<Rightarrow> string" where
  "FormatInt i = (if i < 0 then CHR ''-'' # FormatUint (nat (- i)) else FormatUint (nat i))"

text \<open>
  \<^verbatim>\<open>
  func formatEndpoints(endpoints endpoints) []Endpoint {
      eps := make([]Endpoint, 0)
      if len(endpoints.Subsets) == 0 {
          return eps
      }
      port := ""
      ports := make(map[string]string)
      if len(endpoints.Subsets[0].Ports) > 0 {
          port = strconv.FormatInt(int64(endpoints.Subsets[0].Ports[0].Port), 10)
          for _, p := range endpoints.Subsets[0].Ports {
              if p.Name != "" {
                  ports[p.Name] = strconv.FormatInt(int64(p.Port), 10)
              }
          }
      }
      for _, address := range endpoints.Subsets[0].Addresses {
          ep := Endpoint{Host: address.IP, Port: port, Ports: ports}
          eps = append(eps, ep)
      }
      return eps
  }
  \<close>
  Each \<^verbatim>\<open>range\<close> loop is a fold over the list from its first element on, with the
  variable that the loop assigns as the accumulator.
\<close>

definition named_ports :: "port list \<Rightarrow> (string \<rightharpoonup> string)" where
  "named_ports ps =
     fold (\<lambda>p ports. if port_Name p \<noteq> [] then ports(port_Name p \<mapsto> FormatInt (port_Port p))
                      else ports)
          ps Map.empty"

definition formatEndpoints :: "endpoints_object \<Rightarrow> Endpoint list" where
  "formatEndpoints eo =
     (case Subsets eo of
        [] \<Rightarrow> []
      | s0 # _ \<Rightarrow>
          let (port, ports) =
                (case subset_Ports s0 of
                   [] \<Rightarrow> ([], Map.empty)
                 | p0 # _ \<Rightarrow> (FormatInt (port_Port p0), named_ports (subset_Ports s0)))
          in fold (\<lambda>address eps. eps @ [\<lparr>Host = address_IP address, Port = port, Ports = ports\<rparr>])
                  (subset_Addresses s0) [])"

section \<open>The directory client and the synchronisation\<close>

text \<open>The request that \<^verbatim>\<open>get\<close> builds: a method, the headers, the three fields of the
  URL that it sets, and the context attached to it.\<close>

datatype go_context = TODO | Background | WithCancel bool

record request_url =
  url_Scheme :: string
  url_Host :: string
  url_Path :: string

record request =
  Method :: string
  Header :: "(string \<times> string) list"
  req_URL :: request_url
  req_Context :: go_context

text \<open>A response body is a stream: the bytes it delivers, and the error that reading it
  ends with, if any. \<^verbatim>\<open>ioutil.ReadAll\<close> returns that error, or all the bytes.\<close>

record body =
  body_bytes :: string
  body_error :: "string option"

definition ReadAll :: "body \<Rightarrow> string + string" where
  "ReadAll b = (case body_error b of Some e \<Rightarrow> Inl e | None \<Rightarrow> Inr (body_bytes b))"

record response =
  StatusCode :: int
  Body :: body

text \<open>Modelled from the spec: the type \<^verbatim>\<open>status\<close> into which \<^verbatim>\<open>get\<close> decodes the
  body of a response that is not 200 is declared in a file that is not among the sources.
  The payload is \<^verbatim>\<open>{message, code}\<close>; \<^verbatim>\<open>get\<close> selects \<^verbatim>\<open>Message\<close> and
  \<^verbatim>\<open>Code\<close>.\<close>

record status =
  status_Message :: string
  status_Code :: int

text \<open>What lies outside the package: the HTTP transport and the Go library functions
  that render a URL and decode JSON. \<open>Do\<close> is \<^verbatim>\<open>(*http.Client).Do\<close>: for a client, the
  requests sent before and the request, either the text of a transport error or a
  response. Errors of the decoders are their texts.\<close>

record env =
  Do :: "client_handle \<Rightarrow> request list \<Rightarrow> request \<Rightarrow> string + response"
  url_String :: "request_url \<Rightarrow> string"
  Unmarshal_status :: "string \<Rightarrow> string + status"
  Decode_endpoints :: "body \<Rightarrow> string + endpoints_object"

text \<open>The observable effects of the package on the outside: the requests issued, in
  order, the number of response bodies closed, and the goroutines launched.\<close>

record world =
  sent :: "request list"
  closed :: nat
  spawned :: "goroutine list"

text \<open>
  \<^verbatim>\<open>
  func (lb *LoadBalancer) get(ctx context.Context, path string) (io.ReadCloser, error) {
      r := &http.Request{
          Header: make(http.Header),
          Method: http.MethodGet,
          URL: &url.URL{Host: lb.apiAddr, Path: path, Scheme: "http"},
      }
      r.Header.Set("Accept", "application/json, */*")
      url := r.URL.String()
      resp, err := lb.client.Do(r.WithContext(ctx))
      if err != nil {
          return nil, errors.New("endpoints: " + err.Error())
      }
      if resp.StatusCode != 200 {
          d, err := ioutil.ReadAll(resp.Body)
          if err != nil {
              return nil, &SyncError{url, err.Error(), resp.StatusCode}
          }
          var s status
          err = json.Unmarshal(d, &s)
          if err != nil {
              return nil, &SyncError{url, err.Error(), resp.StatusCode}
          }
          return nil, &SyncError{url, s.Message, s.Code}
      }
      return resp.Body, nil
  }
  \<close>
  Calling \<^verbatim>\<open>Do\<close> through a nil client pointer panics before anything is sent.
  \<open>get_request\<close> is the request \<^verbatim>\<open>r.WithContext(ctx)\<close>.
\<close>

definition get_request :: "LoadBalancer \<Rightarrow> go_context \<Rightarrow> string \<Rightarrow> request" where
  "get_request lb ctx path =
     \<lparr>Method = ''GET'',
      Header = [(''Accept'', ''application/json, */*'')],
      req_URL = \<lparr>url_Scheme = ''http'', url_Host = apiAddr lb, url_Path = path\<rparr>,
      req_Context = ctx\<rparr>"

definition get :: "env \<Rightarrow> LoadBalancer \<Rightarrow> go_context \<Rightarrow> string \<Rightarrow> world \<Rightarrow> ((error + body) \<times> world) exec" where
  "get ev lb ctx path w =
     (let r = get_request lb ctx path;
          url = url_String ev (req_URL r)
      in case client lb of
           None \<Rightarrow> Panic
         | Some c \<Rightarrow>
             let w' = w\<lparr>sent := sent w @ [r]\<rparr>
             in (case Do ev c (sent w) r of
                   Inl e \<Rightarrow> Return (Inl (ClientError (''endpoints: '' @ e)), w')
                 | Inr resp \<Rightarrow>
                     if StatusCode resp \<noteq> 200 then
                       (case ReadAll (Body resp) of
                          Inl e \<Rightarrow>
                            Return (Inl (RemoteError \<lparr>URL = url, Message = e, Code = StatusCode resp\<rparr>), w')
                        | Inr d \<Rightarrow>
                            (case Unmarshal_status ev d of
                               Inl e \<Rightarrow>
                                 Return (Inl (RemoteError \<lparr>URL = url, Message = e, Code = StatusCode resp\<rparr>), w')
                             | Inr s \<Rightarrow>
                                 Return (Inl (RemoteError \<lparr>URL = url, Message = status_Message s,
                                                          Code = status_Code s\<rparr>), w')))
                     else Return (Inr (Body resp), w')))"

text \<open>\<^verbatim>\<open>fmt.Sprintf(endpointsPath, lb.namespace, lb.service)\<close> with
  \<^verbatim>\<open>endpointsPath = "/api/v1/namespaces/%s/endpoints/%s"\<close>.\<close>

definition endpointsPath :: "string \<Rightarrow> string \<Rightarrow> string" where
  "endpointsPath ns svc = ''/api/v1/namespaces/'' @ ns @ ''/endpoints/'' @ svc"

text \<open>
  \<^verbatim>\<open>
  func (lb *LoadBalancer) syncEndpoints() error {
      var eps endpoints
      r, err := lb.get(context.TODO(), fmt.Sprintf(endpointsPath, lb.namespace, lb.service))
      if err != nil {
          return err
      }
      defer r.Close()
      err = json.NewDecoder(r).Decode(&eps)
      if err != nil {
          return err
      }
      lb.update(formatEndpoints(eps))
      return nil
  }
  \<close>
\<close>

definition syncEndpoints :: "env \<Rightarrow> LoadBalancer \<Rightarrow> world \<Rightarrow> (error option \<times> LoadBalancer \<times> world) exec" where
  "syncEndpoints ev lb w =
     (case get ev lb TODO (endpointsPath (namespace lb) (service lb)) w of
        Panic \<Rightarrow> Panic
      | Return (Inl err, w1) \<Rightarrow> Return (Some err, lb, w1)
      | Return (Inr r, w1) \<Rightarrow>
          (case Decode_endpoints ev r of
             Inl e \<Rightarrow> Return (Some (DecodeError e), lb, w1\<lparr>closed := closed w1 + 1\<rparr>)
           | Inr eps \<Rightarrow>
               Return (None, update lb (formatEndpoints eps), w1\<lparr>closed := closed w1 + 1\<rparr>)))"

text \<open>
  \<^verbatim>\<open>
  func (lb *LoadBalancer) SyncEndpoints() error {
      if lb.service == "" {
          return ErrMissingServiceName
      }
      return lb.syncEndpoints()
  }
  \<close>
\<close>

definition SyncEndpoints :: "env \<Rightarrow> LoadBalancer \<Rightarrow> world \<Rightarrow> (error option \<times> LoadBalancer \<times> world) exec" where
  "SyncEndpoints ev lb w =
     (if service lb = [] then Return (Some ErrMissingServiceName, lb, w)
      else syncEndpoints ev lb w)"

text \<open>
  \<^verbatim>\<open>
  func (lb *LoadBalancer) StartBackgroundSync() error {
      if lb.service == "" {
          return ErrMissingServiceName
      }
      lb.wg.Add(1)
      go lb.watchEndpoints()
      lb.wg.Add(1)
      go lb.reconcile()
      return nil
  }
  \<close>
  The call itself only counts and launches the two goroutines; what they do afterwards
  is not part of the call.
\<close>

definition StartBackgroundSync :: "LoadBalancer \<Rightarrow> world \<Rightarrow> (error option \<times> LoadBalancer \<times> world) exec" where
  "StartBackgroundSync lb w =
     (if service lb = [] then Return (Some ErrMissingServiceName, lb, w)
      else
        let lb1 = lb\<lparr>wg := wg lb + 1\<rparr>;
            w1 = w\<lparr>spawned := spawned w @ [WatchEndpoints]\<rparr>;
            lb2 = lb1\<lparr>wg := wg lb1 + 1\<rparr>;
            w2 = w1\<lparr>spawned := spawned w1 @ [Reconcile]\<rparr>
        in Return (None, lb2, w2))"

section \<open>Example states\<close>

text \<open>A load balancer as \<^verbatim>\<open>New\<close> configures it, with three backends and the cursor
  at 1; the same with the list replaced by a shorter one while the cursor stands at 5;
  with an empty list; and with a single backend and the cursor at 1.\<close>

definition lb3 :: LoadBalancer where
  "lb3 = \<lparr>apiAddr = ''127.0.0.1:8001'', client = Some DefaultClient, errorLog = Some StderrLogger,
          namespace = ''default'', retryDelay = 5000000000, service = ''web'',
          syncInterval = 30000000000, quit_closed = False, wg = 0, currentEndpoint = 1,
          endpoints = [\<lparr>Host = ''10.0.0.1'', Port = ''80'', Ports = Map.empty\<rparr>,
                       \<lparr>Host = ''10.0.0.2'', Port = ''80'', Ports = Map.empty\<rparr>,
                       \<lparr>Host = ''10.0.0.3'', Port = ''80'', Ports = Map.empty\<rparr>]\<rparr>"

definition lb_shrunk :: LoadBalancer where
  "lb_shrunk = lb3\<lparr>currentEndpoint := 5,
                   endpoints := [\<lparr>Host = ''10.0.0.7'', Port = ''80'', Ports = Map.empty\<rparr>,
                                 \<lparr>Host = ''10.0.0.8'', Port = ''80'', Ports = Map.empty\<rparr>]\<rparr>"

definition lb_empty :: LoadBalancer where
  "lb_empty = lb3\<lparr>currentEndpoint := 0, endpoints := []\<rparr>"

definition lb_single :: LoadBalancer where
  "lb_single = lb3\<lparr>currentEndpoint := 1,
                   endpoints := [\<lparr>Host = ''10.0.0.7'', Port = ''80'', Ports = Map.empty\<rparr>]\<rparr>"

text \<open>A configuration in which only the service name is set, with a negative retry delay.\<close>

definition cfg_unset :: Config where
  "cfg_unset = \<lparr>APIAddr = [], Client = None, ErrorLog = None, Namespace = [],
                RetryDelay = - 3, Service = ''web'', SyncInterval = 0\<rparr>"

text \<open>The registry object of the transformation example: one subset with two addresses,
  an unnamed port 80 and the port 9090 named metrics.\<close>

definition subset_example :: subset where
  "subset_example =
     \<lparr>subset_Addresses = [\<lparr>address_IP = ''10.0.0.1''\<rparr>, \<lparr>address_IP = ''10.0.0.2''\<rparr>],
      subset_Ports = [\<lparr>port_Name = [], port_Port = 80\<rparr>,
                      \<lparr>port_Name = ''metrics'', port_Port = 9090\<rparr>]\<rparr>"

definition registry_example :: endpoints_object where
  "registry_example = \<lparr>Subsets = [subset_example]\<rparr>"

text \<open>An outside world in which nothing has happened yet, and a directory service that
  answers every request with status 404 and a remote-error payload; the decoder of the
  example reads that payload.\<close>

definition world0 :: world where
  "world0 = \<lparr>sent = [], closed = 0, spawned = []\<rparr>"

definition body404 :: string where
  \<open>body404 = ''{"message":"not found","code":404}''\<close>

definition env404 :: env where
  "env404 =
     \<lparr>Do = (\<lambda>c hist r. Inr \<lparr>StatusCode = 404, Body = \<lparr>body_bytes = body404, body_error = None\<rparr>\<rparr>),
      url_String = (\<lambda>u. url_Scheme u @ ''://'' @ url_Host u @ url_Path u),
      Unmarshal_status = (\<lambda>d. if d = body404 then Inr \<lparr>status_Message = ''not found'', status_Code = 404\<rparr>
                               else Inl ''invalid character''),
      Decode_endpoints = (\<lambda>b. Inl ''EOF'')\<rparr>"

definition lb_noservice :: LoadBalancer where
  "lb_noservice = lb3\<lparr>service := []\<rparr>"

section \<open>Properties of the selector\<close>

text \<open>
  Claim C4. Whenever the backend list of the load balancer is empty, \<^verbatim>\<open>Next\<close> returns
  (it does not panic, whatever the cursor holds, negative values included), its result
  is the zero \<^verbatim>\<open>Endpoint\<close> together with \<^verbatim>\<open>ErrNoEndpoints\<close>, and the state is
  left as it was.
\<close>

theorem Next_empty:
  "Next (lb\<lparr>endpoints := []\<rparr>)
     = Return ((zeroEndpoint, Some ErrNoEndpoints), lb\<lparr>endpoints := []\<rparr>)"
  by (simp add: Next_def)

text \<open>
  Claim C5. When the cursor holds \<open>k\<close> and the backend list is non-empty of length
  \<open>m \<le> k\<close>, \<^verbatim>\<open>Next\<close> returns without error the backend at index 0, does not panic, and
  leaves the cursor at 1 and everything else unchanged.
\<close>

theorem Next_shrink:
  assumes "endpoints lb \<noteq> []" and "int (length (endpoints lb)) \<le> currentEndpoint lb"
  shows "Next lb = Return ((endpoints lb ! 0, None), lb\<lparr>currentEndpoint := 1\<rparr>)"
  using assms by (simp add: Next_def Let_def)

theorem Next_shrink_witness:
  "endpoints lb_shrunk \<noteq> [] \<and> int (length (endpoints lb_shrunk)) \<le> currentEndpoint lb_shrunk
   \<and> Next lb_shrunk = Return ((\<lparr>Host = ''10.0.0.7'', Port = ''80'', Ports = Map.empty\<rparr>, None),
                               lb_shrunk\<lparr>currentEndpoint := 1\<rparr>)"
proof -
  have h1: "endpoints lb_shrunk \<noteq> []" by (simp add: lb_shrunk_def)
  have h2: "int (length (endpoints lb_shrunk)) \<le> currentEndpoint lb_shrunk"
    by (simp add: lb_shrunk_def)
  have "endpoints lb_shrunk ! 0 = \<lparr>Host = ''10.0.0.7'', Port = ''80'', Ports = Map.empty\<rparr>"
    by (simp add: lb_shrunk_def)
  with Next_shrink [OF h1 h2] h1 h2 show ?thesis by simp
qed

subsection \<open>Round robin\<close>

lemma start_index_less:
  "start_index lb < length (endpoints lb)" if "endpoints lb \<noteq> []"
proof (cases "currentEndpoint lb \<ge> int (length (endpoints lb))")
  case True
  with that show ?thesis by (simp add: start_index_def)
next
  case False
  moreover have "0 < length (endpoints lb)" using that by simp
  ultimately have "nat (currentEndpoint lb) < length (endpoints lb)" by linarith
  with False show ?thesis by (simp add: start_index_def)
qed

lemma Next_nonempty:
  assumes "endpoints lb \<noteq> []" and "0 \<le> currentEndpoint lb"
  shows "Next lb = Return ((endpoints lb ! start_index lb, None),
                           lb\<lparr>currentEndpoint := int (start_index lb) + 1\<rparr>)"
  using assms by (auto simp: Next_def Let_def start_index_def)

lemma start_index_after:
  assumes "endpoints lb \<noteq> []"
  shows "start_index (lb\<lparr>currentEndpoint := int (start_index lb) + 1\<rparr>)
           = Suc (start_index lb) mod length (endpoints lb)"
proof -
  have "start_index lb < length (endpoints lb)" using assms by (rule start_index_less)
  then consider "Suc (start_index lb) = length (endpoints lb)"
    | "Suc (start_index lb) < length (endpoints lb)"
    by linarith
  then show ?thesis
  proof cases
    case 1
    then have "int (length (endpoints lb)) \<le> int (start_index lb) + 1" by linarith
    with 1 show ?thesis
      by (simp add: start_index_def[of "lb\<lparr>currentEndpoint := int (start_index lb) + 1\<rparr>"])
  next
    case 2
    then have "\<not> int (length (endpoints lb)) \<le> int (start_index lb) + 1" by linarith
    with 2 show ?thesis
      by (simp add: start_index_def[of "lb\<lparr>currentEndpoint := int (start_index lb) + 1\<rparr>"] nat_add_distrib)
  qed
qed

lemma Next_calls_run:
  assumes "endpoints lb \<noteq> []" and "0 \<le> currentEndpoint lb"
  shows "\<exists>lb'. Next_calls n lb =
           Return (map (\<lambda>j. (endpoints lb ! ((start_index lb + j) mod length (endpoints lb)), None)) [0..<n], lb')
         \<and> endpoints lb' = endpoints lb"
  using assms
proof (induction n arbitrary: lb)
  case 0
  then show ?case by simp
next
  case (Suc n)
  let ?lb1 = "lb\<lparr>currentEndpoint := int (start_index lb) + 1\<rparr>"
  let ?N = "length (endpoints lb)"
  have step: "Next lb = Return ((endpoints lb ! start_index lb, None), ?lb1)"
    using Suc.prems by (rule Next_nonempty)
  have lt: "start_index lb < ?N" using Suc.prems(1) by (rule start_index_less)
  have si: "start_index ?lb1 = Suc (start_index lb) mod ?N"
    using Suc.prems(1) by (rule start_index_after)
  have "endpoints ?lb1 \<noteq> []" "0 \<le> currentEndpoint ?lb1" using Suc.prems by simp_all
  from Suc.IH[OF this] obtain lb' where
    run: "Next_calls n ?lb1 =
           Return (map (\<lambda>j. (endpoints lb ! ((start_index ?lb1 + j) mod ?N), None)) [0..<n], lb')"
    and same: "endpoints lb' = endpoints lb"
    by auto
  have idx: "(start_index ?lb1 + j) mod ?N = (start_index lb + Suc j) mod ?N" for j
    unfolding si by (simp add: mod_add_left_eq)
  have split: "[0..<Suc n] = 0 # map Suc [0..<n]"
    by (simp add: upt_conv_Cons map_Suc_upt del: upt_Suc)
  show ?case
    unfolding split using step run same lt
    by (simp add: idx comp_def)
qed

text \<open>
  Claim C1, as stated, says that from any starting cursor the \<open>N\<close> results come in the
  insertion order of the list. The load balancer \<open>lb3\<close> holds three distinct backends
  and its cursor stands at 1, as after one call of \<^verbatim>\<open>Next\<close>; its next three calls
  return the second, the third and then the first backend, which is not the list.
\<close>

theorem Next_insertion_order_counterexample:
  "distinct (endpoints lb3)
   \<and> length (endpoints lb3) = 3
   \<and> 0 \<le> currentEndpoint lb3
   \<and> map fst (fst (result (Next_calls 3 lb3)))
       = [\<lparr>Host = ''10.0.0.2'', Port = ''80'', Ports = Map.empty\<rparr>,
          \<lparr>Host = ''10.0.0.3'', Port = ''80'', Ports = Map.empty\<rparr>,
          \<lparr>Host = ''10.0.0.1'', Port = ''80'', Ports = Map.empty\<rparr>]
   \<and> map snd (fst (result (Next_calls 3 lb3))) = [None, None, None]
   \<and> map fst (fst (result (Next_calls 3 lb3))) \<noteq> endpoints lb3"
  by (simp add: Next_def lb3_def numeral_3_eq_3)

text \<open>
  Claim C1, amended. Take a load balancer whose backend list holds \<open>N\<close> distinct
  backends, \<open>N > 0\<close>, and whose cursor is any value that the package can leave there
  (it starts at 0 and is only ever assigned 0 or incremented, so it is never negative).
  Then \<open>N + 1\<close> consecutive calls of \<^verbatim>\<open>Next\<close> all return without error and leave
  the list as it is; the first \<open>N\<close> results are the list in cyclic insertion order,
  starting at the index that the first call reads (the cursor, or 0 when the cursor is
  at or past the end), so each backend occurs exactly once among them; and the last
  result is the first one again.
\<close>

theorem Next_round_robin:
  assumes "distinct (endpoints lb)" and "endpoints lb \<noteq> []" and "0 \<le> currentEndpoint lb"
  shows "\<exists>rs lb'. Next_calls (Suc (length (endpoints lb))) lb = Return (rs, lb')
           \<and> map snd rs = replicate (Suc (length (endpoints lb))) None
           \<and> take (length (endpoints lb)) (map fst rs) = rotate (start_index lb) (endpoints lb)
           \<and> distinct (take (length (endpoints lb)) (map fst rs))
           \<and> set (take (length (endpoints lb)) (map fst rs)) = set (endpoints lb)
           \<and> map fst rs ! length (endpoints lb) = map fst rs ! 0
           \<and> endpoints lb' = endpoints lb"
proof -
  let ?eps = "endpoints lb"
  let ?N = "length ?eps"
  let ?k = "start_index lb"
  let ?g = "\<lambda>j. ?eps ! ((?k + j) mod ?N)"
  let ?rs = "map (\<lambda>j. (?g j, None :: error option)) [0..<Suc ?N]"
  from Next_calls_run[OF assms(2,3), of "Suc ?N"] obtain lb' where
    run: "Next_calls (Suc ?N) lb = Return (?rs, lb')" and same: "endpoints lb' = ?eps"
    by blast
  have pos: "0 < ?N" using assms(2) by simp
  have fsts: "map fst ?rs = map ?g [0..<Suc ?N]"
    by (simp add: comp_def del: upt_Suc)
  have snds: "map snd ?rs = replicate (Suc ?N) None"
    by (simp add: comp_def map_replicate_const del: upt_Suc replicate_Suc)
  have tk: "take ?N (map fst ?rs) = map ?g [0..<?N]"
    unfolding fsts by (simp add: take_map del: upt_Suc) 
  have rot: "map ?g [0..<?N] = rotate ?k ?eps"
    by (rule nth_equalityI) (simp_all add: nth_rotate)
  have last_first: "map fst ?rs ! ?N = map fst ?rs ! 0"
  proof -
    have "map fst ?rs ! ?N = ?g ?N" unfolding fsts by (subst nth_map) (simp_all del: upt_Suc)
    also have "\<dots> = ?g 0" by simp
    also have "\<dots> = map fst ?rs ! 0" unfolding fsts using pos by (simp add: upt_conv_Cons del: upt_Suc)
    finally show ?thesis .
  qed
  have "distinct (rotate ?k ?eps)" "set (rotate ?k ?eps) = set ?eps"
    using assms(1) by simp_all
  with run same snds tk rot last_first show ?thesis
    by (intro exI[of _ ?rs] exI[of _ lb']) (simp only: simp_thms)
qed

theorem Next_round_robin_witness:
  "distinct (endpoints lb3) \<and> endpoints lb3 \<noteq> [] \<and> 0 \<le> currentEndpoint lb3
   \<and> (\<exists>rs lb'. Next_calls 4 lb3 = Return (rs, lb')
          \<and> take 3 (map fst rs) = [\<lparr>Host = ''10.0.0.2'', Port = ''80'', Ports = Map.empty\<rparr>,
                                     \<lparr>Host = ''10.0.0.3'', Port = ''80'', Ports = Map.empty\<rparr>,
                                     \<lparr>Host = ''10.0.0.1'', Port = ''80'', Ports = Map.empty\<rparr>]
          \<and> map fst rs ! 3 = map fst rs ! 0)"
proof -
  have h1: "distinct (endpoints lb3)" by (simp add: lb3_def)
  have h2: "endpoints lb3 \<noteq> []" by (simp add: lb3_def)
  have h3: "0 \<le> currentEndpoint lb3" by (simp add: lb3_def)
  have len: "length (endpoints lb3) = 3" by (simp add: lb3_def)
  have four: "Suc 3 = 4" by simp
  have rot: "rotate (start_index lb3) (endpoints lb3)
               = [\<lparr>Host = ''10.0.0.2'', Port = ''80'', Ports = Map.empty\<rparr>,
                  \<lparr>Host = ''10.0.0.3'', Port = ''80'', Ports = Map.empty\<rparr>,
                  \<lparr>Host = ''10.0.0.1'', Port = ''80'', Ports = Map.empty\<rparr>]"
    by (simp add: lb3_def start_index_def)
  from Next_round_robin [OF h1 h2 h3] obtain rs lb' where
    "Next_calls (Suc (length (endpoints lb3))) lb3 = Return (rs, lb')"
    "take (length (endpoints lb3)) (map fst rs) = rotate (start_index lb3) (endpoints lb3)"
    "map fst rs ! length (endpoints lb3) = map fst rs ! 0"
    by blast
  then have "Next_calls 4 lb3 = Return (rs, lb')
      \<and> take 3 (map fst rs) = [\<lparr>Host = ''10.0.0.2'', Port = ''80'', Ports = Map.empty\<rparr>,
                                 \<lparr>Host = ''10.0.0.3'', Port = ''80'', Ports = Map.empty\<rparr>,
                                 \<lparr>Host = ''10.0.0.1'', Port = ''80'', Ports = Map.empty\<rparr>]
      \<and> map fst rs ! 3 = map fst rs ! 0"
    unfolding len rot four by (intro conjI)
  with h1 h2 h3 show ?thesis by blast
qed

subsection \<open>The cursor after a call\<close>

text \<open>
  Claim C6, as stated, says that the cursor after a call of \<^verbatim>\<open>Next\<close> always differs
  from the cursor before it, calls on an empty list included. On the empty list the call
  returns \<^verbatim>\<open>ErrNoEndpoints\<close> before it reaches the cursor, and on a list of one backend
  with the cursor at 1 the call resets the cursor to 0 and increments it to 1 again: in
  both states the cursor after the call equals the cursor before it.
\<close>

theorem Next_cursor_unchanged_counterexample:
  "Next lb_empty = Return ((zeroEndpoint, Some ErrNoEndpoints), lb_empty)
   \<and> currentEndpoint (snd (result (Next lb_empty))) = currentEndpoint lb_empty
   \<and> endpoints lb_single \<noteq> []
   \<and> currentEndpoint (snd (result (Next lb_single))) = currentEndpoint lb_single"
  by (simp add: Next_def lb_empty_def lb_single_def lb3_def)

text \<open>
  Claim C6, amended. A call of \<^verbatim>\<open>Next\<close> on an empty list fails with
  \<^verbatim>\<open>ErrNoEndpoints\<close> and leaves the whole state, the cursor included, as it was. A call
  on a non-empty list returns the backend at the index it reads and assigns the cursor
  that index plus one, a value between 1 and the length of the list; this value differs
  from the cursor before the call except when the list has exactly one backend and the
  cursor was already 1.
\<close>

theorem Next_cursor_effect:
  "(endpoints lb = [] \<longrightarrow> Next lb = Return ((zeroEndpoint, Some ErrNoEndpoints), lb))
   \<and> (endpoints lb \<noteq> [] \<and> 0 \<le> currentEndpoint lb \<longrightarrow>
        Next lb = Return ((endpoints lb ! start_index lb, None),
                          lb\<lparr>currentEndpoint := int (start_index lb) + 1\<rparr>)
        \<and> 1 \<le> int (start_index lb) + 1 \<and> int (start_index lb) + 1 \<le> int (length (endpoints lb))
        \<and> (int (start_index lb) + 1 = currentEndpoint lb
             \<longleftrightarrow> length (endpoints lb) = 1 \<and> currentEndpoint lb = 1))"
proof (intro conjI impI)
  assume "endpoints lb = []"
  then show "Next lb = Return ((zeroEndpoint, Some ErrNoEndpoints), lb)"
    by (simp add: Next_def)
next
  assume a: "endpoints lb \<noteq> [] \<and> 0 \<le> currentEndpoint lb"
  then show "Next lb = Return ((endpoints lb ! start_index lb, None),
                          lb\<lparr>currentEndpoint := int (start_index lb) + 1\<rparr>)"
    by (simp add: Next_nonempty)
  show "1 \<le> int (start_index lb) + 1" by simp
  from a have lt: "start_index lb < length (endpoints lb)" by (simp add: start_index_less)
  then show "int (start_index lb) + 1 \<le> int (length (endpoints lb))" by simp
  from a have "0 < length (endpoints lb)" by simp
  with a show "int (start_index lb) + 1 = currentEndpoint lb
             \<longleftrightarrow> length (endpoints lb) = 1 \<and> currentEndpoint lb = 1"
    by (cases "length (endpoints lb)") (auto simp: start_index_def)
qed

theorem Next_cursor_effect_witness:
  "Next lb_empty = Return ((zeroEndpoint, Some ErrNoEndpoints), lb_empty)
   \<and> Next lb3 = Return ((\<lparr>Host = ''10.0.0.2'', Port = ''80'', Ports = Map.empty\<rparr>, None),
                        lb3\<lparr>currentEndpoint := 2\<rparr>)"
proof -
  have e: "endpoints lb_empty = []" by (simp add: lb_empty_def)
  have n: "endpoints lb3 \<noteq> [] \<and> 0 \<le> currentEndpoint lb3" by (simp add: lb3_def)
  have i: "start_index lb3 = 1" by (simp add: start_index_def lb3_def)
  have v: "endpoints lb3 ! 1 = \<lparr>Host = ''10.0.0.2'', Port = ''80'', Ports = Map.empty\<rparr>"
    by (simp add: lb3_def)
  from Next_cursor_effect [of lb_empty] e
  have "Next lb_empty = Return ((zeroEndpoint, Some ErrNoEndpoints), lb_empty)" by blast
  moreover from Next_cursor_effect [of lb3] n
  have "Next lb3 = Return ((endpoints lb3 ! start_index lb3, None),
                          lb3\<lparr>currentEndpoint := int (start_index lb3) + 1\<rparr>)" by blast
  ultimately show ?thesis unfolding i v by simp
qed

subsection \<open>Replacing the backend list\<close>

text \<open>
  Claim C8. \<^verbatim>\<open>update\<close> makes the new list the backend list and changes nothing else:
  the cursor keeps its value whatever the length of the new list, and so does every
  configuration field, the wait-group counter and the quit channel.
\<close>

theorem update_frame:
  "endpoints (update lb new) = new
   \<and> currentEndpoint (update lb new) = currentEndpoint lb
   \<and> apiAddr (update lb new) = apiAddr lb
   \<and> client (update lb new) = client lb
   \<and> errorLog (update lb new) = errorLog lb
   \<and> namespace (update lb new) = namespace lb
   \<and> retryDelay (update lb new) = retryDelay lb
   \<and> service (update lb new) = service lb
   \<and> syncInterval (update lb new) = syncInterval lb
   \<and> quit_closed (update lb new) = quit_closed lb
   \<and> wg (update lb new) = wg lb"
  by (simp add: update_def)

section \<open>Properties of the construction\<close>

lemma setDefaults_fields:
  "APIAddr (setDefaults g c) = (if APIAddr c = [] then DefaultAPIAddr g else APIAddr c)"
  "Client (setDefaults g c) = (if Client c = None then Some DefaultClient else Client c)"
  "ErrorLog (setDefaults g c) = (if ErrorLog c = None then Some StderrLogger else ErrorLog c)"
  "Namespace (setDefaults g c) = (if Namespace c = [] then DefaultNamespace g else Namespace c)"
  "RetryDelay (setDefaults g c) = (if RetryDelay c \<le> 0 then defaultRetryDelay else RetryDelay c)"
  "SyncInterval (setDefaults g c) = (if SyncInterval c \<le> 0 then defaultSyncInterval else SyncInterval c)"
  "Service (setDefaults g c) = Service c"
  unfolding setDefaults_def Let_def by simp_all

lemma New_parts:
  "fst (New g c) = setDefaults g c"
  "apiAddr (snd (New g c)) = APIAddr (setDefaults g c)"
  "client (snd (New g c)) = Client (setDefaults g c)"
  "errorLog (snd (New g c)) = ErrorLog (setDefaults g c)"
  "namespace (snd (New g c)) = Namespace (setDefaults g c)"
  "retryDelay (snd (New g c)) = RetryDelay (setDefaults g c)"
  "syncInterval (snd (New g c)) = SyncInterval (setDefaults g c)"
  "service (snd (New g c)) = Service (setDefaults g c)"
  "currentEndpoint (snd (New g c)) = 0"
  "endpoints (snd (New g c)) = []"
  unfolding New_def Let_def by simp_all


lemma default_durations:
  "defaultRetryDelay = 5000000000" "defaultSyncInterval = 30000000000"
  by (simp_all add: defaultRetryDelay_def defaultSyncInterval_def)

text \<open>
  Claim C10. \<^verbatim>\<open>New\<close> writes the defaults into the caller's own \<^verbatim>\<open>Config\<close>: after
  the call that structure holds the default API address, client, error log and namespace
  in every such field that was unset, the default retry delay and synchronisation
  interval wherever the value was zero or negative, its other values as they were, and
  the new load balancer is configured from exactly these values.
\<close>

theorem New_defaults_in_place:
  "APIAddr (fst (New g c)) = (if APIAddr c = [] then DefaultAPIAddr g else APIAddr c)
   \<and> Client (fst (New g c)) = (if Client c = None then Some DefaultClient else Client c)
   \<and> ErrorLog (fst (New g c)) = (if ErrorLog c = None then Some StderrLogger else ErrorLog c)
   \<and> Namespace (fst (New g c)) = (if Namespace c = [] then DefaultNamespace g else Namespace c)
   \<and> RetryDelay (fst (New g c)) = (if RetryDelay c \<le> 0 then 5000000000 else RetryDelay c)
   \<and> SyncInterval (fst (New g c)) = (if SyncInterval c \<le> 0 then 30000000000 else SyncInterval c)
   \<and> Service (fst (New g c)) = Service c
   \<and> apiAddr (snd (New g c)) = APIAddr (fst (New g c))
   \<and> client (snd (New g c)) = Client (fst (New g c))
   \<and> errorLog (snd (New g c)) = ErrorLog (fst (New g c))
   \<and> namespace (snd (New g c)) = Namespace (fst (New g c))
   \<and> retryDelay (snd (New g c)) = RetryDelay (fst (New g c))
   \<and> syncInterval (snd (New g c)) = SyncInterval (fst (New g c))
   \<and> service (snd (New g c)) = Service c"
  by (simp only: New_parts setDefaults_fields default_durations simp_thms)

theorem New_defaults_in_place_witness:
  "fst (New initial_vars cfg_unset)
     = \<lparr>APIAddr = ''127.0.0.1:8001'', Client = Some DefaultClient, ErrorLog = Some StderrLogger,
        Namespace = ''default'', RetryDelay = 5000000000, Service = ''web'',
        SyncInterval = 30000000000\<rparr>"
proof -
  have "APIAddr cfg_unset = []" "Client cfg_unset = None" "ErrorLog cfg_unset = None"
    "Namespace cfg_unset = []" "RetryDelay cfg_unset \<le> 0" "SyncInterval cfg_unset \<le> 0"
    "Service cfg_unset = ''web''"
    by (simp_all add: cfg_unset_def)
  with New_defaults_in_place [of initial_vars cfg_unset]
  have "APIAddr (fst (New initial_vars cfg_unset)) = ''127.0.0.1:8001''"
    "Client (fst (New initial_vars cfg_unset)) = Some DefaultClient"
    "ErrorLog (fst (New initial_vars cfg_unset)) = Some StderrLogger"
    "Namespace (fst (New initial_vars cfg_unset)) = ''default''"
    "RetryDelay (fst (New initial_vars cfg_unset)) = 5000000000"
    "SyncInterval (fst (New initial_vars cfg_unset)) = 30000000000"
    "Service (fst (New initial_vars cfg_unset)) = ''web''"
    by (simp_all add: initial_vars_def)
  then show ?thesis by (cases "fst (New initial_vars cfg_unset)") simp
qed

text \<open>The cursor of a load balancer is never negative: it starts at 0, and neither
  \<^verbatim>\<open>Next\<close> nor \<^verbatim>\<open>update\<close> makes it negative.\<close>

lemma New_cursor_nonneg: "0 \<le> currentEndpoint (snd (New g c))"
  by (simp only: New_parts)

lemma Next_cursor_nonneg:
  assumes "Next lb = Return (r, lb')" and "0 \<le> currentEndpoint lb"
  shows "0 \<le> currentEndpoint lb'"
  using assms by (auto simp: Next_def Let_def split: if_splits)

lemma update_cursor_nonneg: "0 \<le> currentEndpoint lb \<Longrightarrow> 0 \<le> currentEndpoint (update lb eps)"
  by (simp add: update_def)

text \<open>A negative cursor, which no function of the package produces, would make
  \<^verbatim>\<open>Next\<close> panic on a non-empty list.\<close>

lemma Next_negative_cursor:
  assumes "endpoints lb \<noteq> []" and "currentEndpoint lb < 0"
  shows "Next lb = Panic"
  using assms by (simp add: Next_def Let_def)

text \<open>The example state \<open>lb3\<close> is what one call of \<^verbatim>\<open>Next\<close> leaves behind on a
  new load balancer whose list has been replaced by the three backends.\<close>

lemma lb3_reachable:
  "Next (update (snd (New initial_vars cfg_unset)) (endpoints lb3))
     = Return ((\<lparr>Host = ''10.0.0.1'', Port = ''80'', Ports = Map.empty\<rparr>, None), lb3)"
  by (simp add: New_def setDefaults_def Let_def cfg_unset_def initial_vars_def update_def
        Next_def lb3_def defaultRetryDelay_def defaultSyncInterval_def)

section \<open>Properties of the transformation\<close>

lemma FormatInt_80: "FormatInt 80 = ''80''"
  by (simp add: FormatInt_def FormatUint.simps digit_def)

lemma FormatInt_9090: "FormatInt 9090 = ''9090''"
  by (simp add: FormatInt_def FormatUint.simps digit_def)

lemma fold_append_map:
  "fold (\<lambda>a eps. eps @ [f a]) xs acc = acc @ map f xs"
  by (induction xs arbitrary: acc) simp_all

lemma fold_map_upd:
  "fold (\<lambda>p m. if P p then m(k p \<mapsto> v p) else m) ps m0
     = m0 ++ map_of (rev (map (\<lambda>p. (k p, v p)) (filter P ps)))"
proof (induction ps arbitrary: m0)
  case Nil
  then show ?case by simp
next
  case (Cons p ps)
  show ?case
  proof (cases "P p")
    case True
    have "m0(k p \<mapsto> v p) = m0 ++ [k p \<mapsto> v p]" by simp
    then show ?thesis
      using True Cons.IH [of "m0(k p \<mapsto> v p)"]
      by (simp only: fold_simps filter.simps list.map rev.simps map_of_append map_add_assoc
            map_of.simps fst_conv snd_conv if_True)
  next
    case False
    then show ?thesis using Cons.IH [of m0] by simp
  qed
qed

lemma named_ports_map_of:
  "named_ports ps
     = map_of (rev (map (\<lambda>p. (port_Name p, FormatInt (port_Port p)))
                        (filter (\<lambda>p. port_Name p \<noteq> []) ps)))"
  unfolding named_ports_def by (simp only: fold_map_upd empty_map_add)

lemma dom_named_ports:
  "dom (named_ports ps) = {port_Name p |p. p \<in> set ps \<and> port_Name p \<noteq> []}"
  unfolding named_ports_map_of by (auto simp: dom_map_of_conv_image_fst image_iff)

lemma formatEndpoints_Cons:
  "formatEndpoints \<lparr>Subsets = s # rest\<rparr>
     = map (\<lambda>a. \<lparr>Host = address_IP a,
                 Port = (case subset_Ports s of [] \<Rightarrow> [] | p # _ \<Rightarrow> FormatInt (port_Port p)),
                 Ports = named_ports (subset_Ports s)\<rparr>)
           (subset_Addresses s)"
  by (cases "subset_Ports s") (simp_all add: formatEndpoints_def fold_append_map named_ports_def)

text \<open>
  Claim C2. \<^verbatim>\<open>formatEndpoints\<close> is a function of the registry object alone. Without
  subsets the result is empty. Otherwise only the first subset counts: the result has
  one backend for each of its addresses, in order, with the address's IP as host, with
  the decimal rendering of the first port's number as primary port (the empty string
  when the subset has no ports), and with the named-port map that holds, for every port
  of that subset with a non-empty name, the rendering of its number (the last port of a
  name, should a name occur twice) and nothing else. The registry object of the example
  yields two backends with primary port 80 and the named-port map from metrics to 9090.
\<close>

theorem formatEndpoints_correct:
  "formatEndpoints \<lparr>Subsets = []\<rparr> = []
   \<and> formatEndpoints \<lparr>Subsets = s # rest\<rparr>
       = map (\<lambda>a. \<lparr>Host = address_IP a,
                   Port = (case subset_Ports s of [] \<Rightarrow> [] | p # _ \<Rightarrow> FormatInt (port_Port p)),
                   Ports = map_of (rev (map (\<lambda>p. (port_Name p, FormatInt (port_Port p)))
                                            (filter (\<lambda>p. port_Name p \<noteq> []) (subset_Ports s))))\<rparr>)
             (subset_Addresses s)
   \<and> (\<forall>b \<in> set (formatEndpoints \<lparr>Subsets = s # rest\<rparr>).
         dom (Ports b) = {port_Name p |p. p \<in> set (subset_Ports s) \<and> port_Name p \<noteq> []})
   \<and> formatEndpoints registry_example
       = [\<lparr>Host = ''10.0.0.1'', Port = ''80'', Ports = [''metrics'' \<mapsto> ''9090'']\<rparr>,
          \<lparr>Host = ''10.0.0.2'', Port = ''80'', Ports = [''metrics'' \<mapsto> ''9090'']\<rparr>]"
proof (intro conjI)
  show "formatEndpoints \<lparr>Subsets = []\<rparr> = []"
    by (simp add: formatEndpoints_def)
  show "formatEndpoints \<lparr>Subsets = s # rest\<rparr>
       = map (\<lambda>a. \<lparr>Host = address_IP a,
                   Port = (case subset_Ports s of [] \<Rightarrow> [] | p # _ \<Rightarrow> FormatInt (port_Port p)),
                   Ports = map_of (rev (map (\<lambda>p. (port_Name p, FormatInt (port_Port p)))
                                            (filter (\<lambda>p. port_Name p \<noteq> []) (subset_Ports s))))\<rparr>)
             (subset_Addresses s)"
    by (simp only: formatEndpoints_Cons named_ports_map_of)
  show "\<forall>b \<in> set (formatEndpoints \<lparr>Subsets = s # rest\<rparr>).
         dom (Ports b) = {port_Name p |p. p \<in> set (subset_Ports s) \<and> port_Name p \<noteq> []}"
    unfolding formatEndpoints_Cons by (simp add: dom_named_ports)
  show "formatEndpoints registry_example
       = [\<lparr>Host = ''10.0.0.1'', Port = ''80'', Ports = [''metrics'' \<mapsto> ''9090'']\<rparr>,
          \<lparr>Host = ''10.0.0.2'', Port = ''80'', Ports = [''metrics'' \<mapsto> ''9090'']\<rparr>]"
    unfolding registry_example_def formatEndpoints_Cons
    by (simp add: subset_example_def named_ports_def FormatInt_80 FormatInt_9090)
qed

theorem formatEndpoints_correct_witness:
  "map Host (formatEndpoints registry_example) = [''10.0.0.1'', ''10.0.0.2'']
   \<and> map Port (formatEndpoints registry_example) = [''80'', ''80'']
   \<and> map (\<lambda>b. dom (Ports b)) (formatEndpoints registry_example) = [{''metrics''}, {''metrics''}]"
proof -
  have e: "registry_example = \<lparr>Subsets = subset_example # []\<rparr>"
    by (simp add: registry_example_def)
  have d: "{port_Name p |p. p \<in> set (subset_Ports subset_example) \<and> port_Name p \<noteq> []} = {''metrics''}"
  proof -
    have "{port_Name p |p. p \<in> set (subset_Ports subset_example) \<and> port_Name p \<noteq> []}
            = port_Name ` {p \<in> set (subset_Ports subset_example). port_Name p \<noteq> []}"
      by blast
    also have "{p \<in> set (subset_Ports subset_example). port_Name p \<noteq> []}
                 = {\<lparr>port_Name = ''metrics'', port_Port = 9090\<rparr>}"
      by (auto simp: subset_example_def)
    finally show ?thesis by simp
  qed
  from formatEndpoints_correct [of subset_example "[]"]
  have f: "formatEndpoints registry_example
       = map (\<lambda>a. \<lparr>Host = address_IP a,
                   Port = (case subset_Ports subset_example of [] \<Rightarrow> [] | p # _ \<Rightarrow> FormatInt (port_Port p)),
                   Ports = map_of (rev (map (\<lambda>p. (port_Name p, FormatInt (port_Port p)))
                                            (filter (\<lambda>p. port_Name p \<noteq> []) (subset_Ports subset_example))))\<rparr>)
             (subset_Addresses subset_example)"
    and g: "\<forall>b \<in> set (formatEndpoints registry_example).
         dom (Ports b) = {''metrics''}"
    unfolding e d by blast+
  have "map Host (formatEndpoints registry_example) = [''10.0.0.1'', ''10.0.0.2'']"
    unfolding f by (simp add: subset_example_def)
  moreover have "map Port (formatEndpoints registry_example) = [''80'', ''80'']"
    unfolding f by (simp add: subset_example_def FormatInt_80)
  moreover have "map (\<lambda>b. dom (Ports b)) (formatEndpoints registry_example) = [{''metrics''}, {''metrics''}]"
  proof -
    have "length (formatEndpoints registry_example) = 2"
      unfolding f by (simp add: subset_example_def)
    then obtain b1 b2 where l: "formatEndpoints registry_example = [b1, b2]"
      by (auto simp: length_Suc_conv numeral_2_eq_2)
    with g show ?thesis by simp
  qed
  ultimately show ?thesis by blast
qed

section \<open>Properties of the directory client and the synchronisation\<close>

text \<open>Every call of \<^verbatim>\<open>get\<close> that returns has issued exactly one request, and so has
  every call of \<^verbatim>\<open>SyncEndpoints\<close> with a service name: the log of requests does
  record the network calls.\<close>

lemma get_sends:
  assumes "get ev lb ctx path w = Return (r, w')"
  shows "w' = w\<lparr>sent := sent w @ [get_request lb ctx path]\<rparr>"
  using assms
  by (auto simp: get_def Let_def split: option.splits sum.splits if_splits)

lemma SyncEndpoints_sends:
  assumes "service lb \<noteq> []" and "SyncEndpoints ev lb w = Return (e, lb', w')"
  shows "sent w' = sent w @ [get_request lb TODO (endpointsPath (namespace lb) (service lb))]"
  using assms
  by (auto simp: SyncEndpoints_def syncEndpoints_def split: exec.splits sum.splits prod.splits dest!: get_sends)

text \<open>
  Claim C7. When the service name of the load balancer is the empty string, both
  \<^verbatim>\<open>SyncEndpoints\<close> and \<^verbatim>\<open>StartBackgroundSync\<close> return
  \<^verbatim>\<open>ErrMissingServiceName\<close>; the load balancer (backend list and cursor included) and
  the outside world (the log of requests issued, the goroutines launched) are as before
  the call.
\<close>

theorem missing_service_name:
  assumes "service lb = []"
  shows "SyncEndpoints ev lb w = Return (Some ErrMissingServiceName, lb, w)
         \<and> StartBackgroundSync lb w = Return (Some ErrMissingServiceName, lb, w)"
  using assms by (simp add: SyncEndpoints_def StartBackgroundSync_def)

theorem missing_service_name_witness:
  "service lb_noservice = []
   \<and> SyncEndpoints env404 lb_noservice world0 = Return (Some ErrMissingServiceName, lb_noservice, world0)
   \<and> StartBackgroundSync lb_noservice world0 = Return (Some ErrMissingServiceName, lb_noservice, world0)"
proof -
  have h: "service lb_noservice = []" by (simp add: lb_noservice_def)
  from missing_service_name [OF h, of env404 world0] h show ?thesis by simp
qed

text \<open>
  Claim C3. When the directory service answers the request of \<^verbatim>\<open>get\<close> with a status
  that is not 2xx, \<^verbatim>\<open>get\<close> fails with a \<^verbatim>\<open>SyncError\<close> that carries the URL of the
  request; its message and code are those decoded from the body of the response, or,
  when the body cannot be read or cannot be decoded, the text of that failure and the
  HTTP status. The theorem that follows it applies this to a 404 response whose body is
  the payload with message not found and code 404.
\<close>

theorem get_remote_error:
  assumes "client lb = Some c"
      and "Do ev c (sent w) (get_request lb ctx path) = Inr resp"
      and "\<not> (200 \<le> StatusCode resp \<and> StatusCode resp < 300)"
  shows "get ev lb ctx path w =
           Return (Inl (RemoteError
                     (case ReadAll (Body resp) of
                        Inl e \<Rightarrow> \<lparr>URL = url_String ev (req_URL (get_request lb ctx path)),
                                  Message = e, Code = StatusCode resp\<rparr>
                      | Inr d \<Rightarrow>
                          (case Unmarshal_status ev d of
                             Inl e \<Rightarrow> \<lparr>URL = url_String ev (req_URL (get_request lb ctx path)),
                                       Message = e, Code = StatusCode resp\<rparr>
                           | Inr s \<Rightarrow> \<lparr>URL = url_String ev (req_URL (get_request lb ctx path)),
                                       Message = status_Message s, Code = status_Code s\<rparr>))),
                   w\<lparr>sent := sent w @ [get_request lb ctx path]\<rparr>)"
proof -
  from assms(3) have "StatusCode resp \<noteq> 200" by auto
  with assms(1,2) show ?thesis
    by (simp add: get_def Let_def split: sum.splits)
qed

theorem get_remote_error_witness:
  "get env404 lb3 TODO ''/api/v1/namespaces/default/endpoints/web'' world0 =
     Return (Inl (RemoteError \<lparr>URL = ''http://127.0.0.1:8001/api/v1/namespaces/default/endpoints/web'',
                               Message = ''not found'', Code = 404\<rparr>),
             world0\<lparr>sent := [get_request lb3 TODO ''/api/v1/namespaces/default/endpoints/web'']\<rparr>)"
proof -
  let ?p = "''/api/v1/namespaces/default/endpoints/web''"
  let ?resp = "\<lparr>StatusCode = 404, Body = \<lparr>body_bytes = body404, body_error = None\<rparr>\<rparr>"
  have h1: "client lb3 = Some DefaultClient" by (simp add: lb3_def)
  have h2: "Do env404 DefaultClient (sent world0) (get_request lb3 TODO ?p) = Inr ?resp"
    by (simp add: env404_def)
  have h3: "\<not> (200 \<le> StatusCode ?resp \<and> StatusCode ?resp < 300)" by simp
  have u: "url_String env404 (req_URL (get_request lb3 TODO ?p))
             = ''http://127.0.0.1:8001/api/v1/namespaces/default/endpoints/web''"
    by (simp add: env404_def get_request_def lb3_def)
  have d: "Unmarshal_status env404 body404 = Inr \<lparr>status_Message = ''not found'', status_Code = 404\<rparr>"
    by (simp add: env404_def)
  have s: "sent world0 = []" by (simp add: world0_def)
  show ?thesis
    using get_remote_error [OF h1 h2 h3] by (simp add: ReadAll_def u d s)
qed

end
